theory Spec2Isabelle
  imports
    Complex_Main
    "HOL-Library.Char_ord"
    "HOL-Library.List_Lexorder"
    "HOL-Library.Option_ord"
    "HOL-Library.Product_Lexorder"
    "HOL-Library.Multiset"
begin

section \<open>The reading store of \<open>main.py\<close>\<close>

text \<open>
  The query handlers \<open>api_sensors\<close>, \<open>api_summary\<close> and \<open>api_timeseries\<close> of
  \<open>src/main.py\<close> read one MongoDB collection of sensor readings. A document of that
  collection has the fields of the schema in the docstring of \<open>api_summary\<close>:
  \<open>sensor\<close> (string), \<open>value\<close> (number), \<open>unit\<close> (string), \<open>timestamp\<close> (datetime) and
  an optional \<open>location\<close>, plus the \<open>_id\<close> the store adds.

  \<^item> A timestamp is an integer, the milliseconds since the epoch: the precision of a
    BSON date. The clock \<open>now\<close> is in the same unit.
  \<^item> A value is a rational number, and sums and quotients of values are exact (the
    store computes them in binary floating point).
  \<^item> An absent field and a field holding \<open>null\<close> are both \<open>None\<close>: \<open>$ifNull\<close>, \<open>$sort\<close>
    and Python's truth test treat them alike.
  \<^item> A string is a list of bytes, and strings are ordered byte by byte, which on
    UTF-8 is the order of the code points that Python's \<open>sorted\<close> and the store use.

  The handlers are modelled from their first statement on: \<open>@login_required\<close> has let
  the request pass.
\<close>

record doc =
  d_id :: nat
  d_sensor :: string
  d_value :: rat
  d_unit :: "string option"
  d_timestamp :: int
  d_location :: "string option"

text \<open>A document without its \<open>_id\<close>: what \<open>{"$project": {"_id": 0}}\<close> and the
  projection of \<open>find\<close> leave.\<close>

record reading =
  r_sensor :: string
  r_value :: rat
  r_unit :: "string option"
  r_timestamp :: int
  r_location :: "string option"

definition project_id :: "doc \<Rightarrow> reading" where
  "project_id d =
     \<lparr>r_sensor = d_sensor d, r_value = d_value d, r_unit = d_unit d,
      r_timestamp = d_timestamp d, r_location = d_location d\<rparr>"

text \<open>One entry of \<open>stats_24h\<close>: the fields the \<open>$project\<close> stage of \<open>stats_pipeline\<close>
  keeps.\<close>

record stat =
  s_sensor :: string
  s_count :: nat
  s_min :: rat
  s_max :: rat
  s_avg :: rat

text \<open>
  What a request finds behind \<open>get_collection()\<close>:
  \<^item> \<open>Unconfigured\<close>: \<open>MONGODB_URI\<close> is not set, and \<open>get_db\<close> raises \<open>ValueError\<close>;
  \<^item> \<open>Unavailable e\<close>: every operation on the collection raises a \<open>PyMongoError\<close>
    whose text \<open>str(e)\<close> is \<open>e\<close>;
  \<^item> \<open>Collection docs\<close>: the operations succeed on the documents \<open>docs\<close>, listed in
    the store's natural order.
  One request sees one of the three for all its operations.
\<close>

datatype store = Unconfigured | Unavailable string | Collection "doc list"

text \<open>The operations a handler performs on the store, in order.\<close>

datatype store_op = GetCollection | Distinct string | Aggregate | Find

datatype py_exc = ValueError | OverflowError

datatype body =
    Dimensions "string list" "string list"
  | Summary "reading list" "stat list"
  | Series "reading list"
  | ErrorBody string

text \<open>A handler returns \<open>jsonify(body), status\<close>, or an exception escapes it
  (\<open>Unhandled\<close>).\<close>

datatype response = Response nat body | Unhandled py_exc

type_synonym outcome = "response \<times> store_op list"

section \<open>Python and store primitives\<close>

text \<open>Python's truth test on an optional string: \<open>None\<close> and \<open>""\<close> are false.\<close>

fun truthy :: "string option \<Rightarrow> bool" where
  "truthy None = False"
| "truthy (Some s) = (s \<noteq> [])"

text \<open>\<open>sorted(xs)\<close> and \<open>sorted(xs, key=f)\<close>: a stable sort, ascending.\<close>

definition py_sorted :: "('a \<Rightarrow> 'k::linorder) \<Rightarrow> 'a list \<Rightarrow> 'a list" where
  "py_sorted f xs = sort_key f xs"

text \<open>\<open>col.distinct(field)\<close>: the values of the field, each once.\<close>

definition distinct_values :: "(doc \<Rightarrow> 'v) \<Rightarrow> doc list \<Rightarrow> 'v list" where
  "distinct_values f docs = remdups (map f docs)"

text \<open>
  \<open>datetime.now(timezone.utc) - timedelta(hours=hours)\<close>. A \<open>datetime\<close> lies between
  the years 1 and 9999; a result outside raises \<open>OverflowError\<close>.
\<close>

definition dt_min :: int where
  "dt_min = - 62135596800000"

definition dt_max :: int where
  "dt_max = 253402300799999"

definition since_of :: "int \<Rightarrow> int \<Rightarrow> int option" where
  "since_of now hours =
     (let s = now - hours * 3600000
      in if dt_min \<le> s \<and> s \<le> dt_max then Some s else None)"

section \<open>The dimension lister: \<open>api_sensors\<close>\<close>

definition api_sensors :: "store \<Rightarrow> outcome" where
  "api_sensors st =
     (case st of
        Unconfigured \<Rightarrow> (Unhandled ValueError, [GetCollection])
      | Unavailable e \<Rightarrow>
          (Response 500 (ErrorBody e), [GetCollection, Distinct ''sensor''])
      | Collection docs \<Rightarrow>
          (let sensors = py_sorted (\<lambda>s. s) (distinct_values d_sensor docs);
               locations =
                 py_sorted (\<lambda>s. s)
                   (map the (filter truthy (distinct_values d_location docs)))
           in (Response 200 (Dimensions sensors locations),
               [GetCollection, Distinct ''sensor'', Distinct ''location''])))"

section \<open>Store pipelines\<close>

text \<open>
  \<open>$sort\<close> and \<open>cursor.sort\<close>: the documents in ascending order of a key. Documents
  with equal keys keep the order they arrive in.
\<close>

definition mongo_sort :: "('a \<Rightarrow> 'k::linorder) \<Rightarrow> 'a list \<Rightarrow> 'a list" where
  "mongo_sort f xs = sort_key f xs"

text \<open>
  \<open>$group\<close>: the stage reads its input in order and keeps one accumulator per group
  key. The first document of a group starts the accumulator (\<open>init\<close>), every later one
  updates it (\<open>step\<close>). Groups are listed in the order they were opened.
\<close>

fun upsert :: "'k \<Rightarrow> 'v \<Rightarrow> ('v \<Rightarrow> 'v) \<Rightarrow> ('k \<times> 'v) list \<Rightarrow> ('k \<times> 'v) list" where
  "upsert k v f [] = [(k, v)]"
| "upsert k v f ((k', a) # gs) =
     (if k' = k then (k', f a) # gs else (k', a) # upsert k v f gs)"

fun group_into ::
  "('a \<Rightarrow> 'k) \<Rightarrow> ('a \<Rightarrow> 'v) \<Rightarrow> ('a \<Rightarrow> 'v \<Rightarrow> 'v) \<Rightarrow> ('k \<times> 'v) list \<Rightarrow> 'a list \<Rightarrow> ('k \<times> 'v) list"
where
  "group_into key init step gs [] = gs"
| "group_into key init step gs (d # ds) =
     group_into key init step (upsert (key d) (init d) (step d) gs) ds"

definition mongo_group ::
  "('a \<Rightarrow> 'k) \<Rightarrow> ('a \<Rightarrow> 'v) \<Rightarrow> ('a \<Rightarrow> 'v \<Rightarrow> 'v) \<Rightarrow> 'a list \<Rightarrow> ('k \<times> 'v) list"
where
  "mongo_group key init step docs = group_into key init step [] docs"

text \<open>
  \<open>cursor.limit(n)\<close>: a limit of 0 is no limit, and a negative limit keeps as many
  documents as its absolute value.
\<close>

definition mongo_limit :: "int \<Rightarrow> 'a list \<Rightarrow> 'a list" where
  "mongo_limit n xs = (if n = 0 then xs else take (nat \<bar>n\<bar>) xs)"

text \<open>A BSON integer has at most 8 bytes; encoding a larger one raises
  \<open>OverflowError\<close>.\<close>

definition bson_int_ok :: "int \<Rightarrow> bool" where
  "bson_int_ok n = (- (2 ^ 63) \<le> n \<and> n < 2 ^ 63)"

section \<open>The snapshot and statistics aggregator: \<open>api_summary\<close>\<close>

text \<open>
  The first pipeline sorts by \<open>{"sensor": 1, "location": 1, "timestamp": -1}\<close>. In the
  store's order an absent or null field comes before every string, as \<open>None\<close> comes
  before every \<open>Some\<close>; strings compare byte by byte.
\<close>

definition latest_order :: "doc \<Rightarrow> string \<times> string option \<times> int" where
  "latest_order d = (d_sensor d, d_location d, - d_timestamp d)"

text \<open>The group key
  \<open>{"sensor": "$sensor", "location": {"$ifNull": ["$location", "__none__"]}}\<close>.\<close>

definition latest_key :: "doc \<Rightarrow> string \<times> string" where
  "latest_key d =
     (d_sensor d, case d_location d of None \<Rightarrow> ''__none__'' | Some l \<Rightarrow> l)"

text \<open>\<open>pipeline\<close>: sort, group with \<open>{"$first": "$$ROOT"}\<close>, replace the root by the
  document kept, drop \<open>_id\<close>.\<close>

definition latest_pipeline :: "doc list \<Rightarrow> reading list" where
  "latest_pipeline docs =
     map (\<lambda>(k, d). project_id d)
       (mongo_group latest_key (\<lambda>d. d) (\<lambda>d a. a) (mongo_sort latest_order docs))"

text \<open>The accumulators of \<open>stats_pipeline\<close>: \<open>{"$sum": 1}\<close>, \<open>$min\<close>, \<open>$max\<close>, and for
  \<open>$avg\<close> the running sum.\<close>

record stat_acc =
  a_count :: nat
  a_min :: rat
  a_max :: rat
  a_sum :: rat

definition stat_init :: "doc \<Rightarrow> stat_acc" where
  "stat_init d =
     \<lparr>a_count = 1, a_min = d_value d, a_max = d_value d, a_sum = d_value d\<rparr>"

definition stat_step :: "doc \<Rightarrow> stat_acc \<Rightarrow> stat_acc" where
  "stat_step d a =
     \<lparr>a_count = a_count a + 1, a_min = min (a_min a) (d_value d),
      a_max = max (a_max a) (d_value d), a_sum = a_sum a + d_value d\<rparr>"

definition stat_project :: "string \<times> stat_acc \<Rightarrow> stat" where
  "stat_project g =
     (case g of (k, a) \<Rightarrow>
        \<lparr>s_sensor = k, s_count = a_count a, s_min = a_min a, s_max = a_max a,
         s_avg = a_sum a / of_nat (a_count a)\<rparr>)"

text \<open>\<open>stats_pipeline\<close>: match \<open>{"timestamp": {"$gte": since}}\<close>, group by sensor,
  project.\<close>

definition stats_pipeline :: "int \<Rightarrow> doc list \<Rightarrow> stat list" where
  "stats_pipeline since docs =
     map stat_project
       (mongo_group d_sensor stat_init stat_step
          (filter (\<lambda>d. since \<le> d_timestamp d) docs))"

definition api_summary :: "store \<Rightarrow> int \<Rightarrow> outcome" where
  "api_summary st now =
     (case st of
        Unconfigured \<Rightarrow> (Unhandled ValueError, [GetCollection])
      | Unavailable e \<Rightarrow> (Response 500 (ErrorBody e), [GetCollection, Aggregate])
      | Collection docs \<Rightarrow>
          (let latest = latest_pipeline docs
           in case since_of now 24 of
                None \<Rightarrow> (Unhandled OverflowError, [GetCollection, Aggregate])
              | Some since \<Rightarrow>
                  (let stats = stats_pipeline since docs
                   in (Response 200 (Summary latest stats),
                       [GetCollection, Aggregate, Aggregate]))))"

section \<open>The windowed series reader: \<open>api_timeseries\<close>\<close>

text \<open>
  \<open>int(s)\<close> on a query-string value: white space around the number is dropped, a
  sign may come first, then decimal digits, with single underscores allowed between
  digits. Anything else raises \<open>ValueError\<close>, here \<open>None\<close>. Strings are byte strings:
  only the ASCII white space and digits are recognised. Python's \<open>int\<close> also accepts the
  decimal digits and the white space of other scripts; a value written with them is
  rejected here. The properties below take the result of \<open>int_arg\<close> as it is, and
  evaluate \<open>py_int\<close> on ASCII values only.
\<close>

definition py_isspace :: "char \<Rightarrow> bool" where
  "py_isspace c =
     (let n = (of_char c :: nat) in (9 \<le> n \<and> n \<le> 13) \<or> (28 \<le> n \<and> n \<le> 32))"

definition py_strip :: "string \<Rightarrow> string" where
  "py_strip s = rev (dropWhile py_isspace (rev (dropWhile py_isspace s)))"

definition digit_val :: "char \<Rightarrow> nat option" where
  "digit_val c =
     (let n = (of_char c :: nat) in if 48 \<le> n \<and> n \<le> 57 then Some (n - 48) else None)"

fun digits_val :: "nat \<Rightarrow> string \<Rightarrow> nat option" where
  "digits_val acc [] = Some acc"
| "digits_val acc (c # cs) =
     (if c = CHR ''_'' then
        (case cs of
           [] \<Rightarrow> None
         | d # ds \<Rightarrow>
             (case digit_val d of
                None \<Rightarrow> None
              | Some v \<Rightarrow> digits_val (10 * acc + v) ds))
      else
        (case digit_val c of
           None \<Rightarrow> None
         | Some v \<Rightarrow> digits_val (10 * acc + v) cs))"

definition py_nat :: "string \<Rightarrow> nat option" where
  "py_nat s =
     (case s of
        [] \<Rightarrow> None
      | d # ds \<Rightarrow> (case digit_val d of None \<Rightarrow> None | Some v \<Rightarrow> digits_val v ds))"

definition py_int :: "string \<Rightarrow> int option" where
  "py_int s =
     (case py_strip s of
        [] \<Rightarrow> None
      | c # cs \<Rightarrow>
          (if c = CHR ''-'' then map_option (\<lambda>n. - int n) (py_nat cs)
           else if c = CHR ''+'' then map_option int (py_nat cs)
           else map_option int (py_nat (c # cs))))"

text \<open>\<open>int(request.args.get(name, default))\<close>: the default is an integer already.\<close>

definition int_arg :: "string option \<Rightarrow> int \<Rightarrow> int option" where
  "int_arg a dflt = (case a of None \<Rightarrow> Some dflt | Some s \<Rightarrow> py_int s)"

text \<open>The filter document \<open>query\<close>: \<open>sensor\<close> and \<open>timestamp >= since\<close> always, \<open>location\<close>
  only when the handler adds it.\<close>

record query =
  q_sensor :: string
  q_since :: int
  q_location :: "string option"

definition matches :: "query \<Rightarrow> doc \<Rightarrow> bool" where
  "matches q d =
     (d_sensor d = q_sensor q \<and> q_since q \<le> d_timestamp d \<and>
      (case q_location q of None \<Rightarrow> True | Some l \<Rightarrow> d_location d = Some l))"

definition build_query :: "string \<Rightarrow> int \<Rightarrow> string option \<Rightarrow> query" where
  "build_query sensor since location =
     \<lparr>q_sensor = sensor, q_since = since,
      q_location = (if truthy location then location else None)\<rparr>"

text \<open>\<open>col.find(query, projection).sort("timestamp", DESCENDING).limit(limit)\<close>, read
  into a list.\<close>

definition find_sorted_limited :: "query \<Rightarrow> int \<Rightarrow> doc list \<Rightarrow> reading list" where
  "find_sorted_limited q limit docs =
     map project_id
       (mongo_limit limit
          (mongo_sort (\<lambda>d. - d_timestamp d) (filter (matches q) docs)))"

text \<open>The body of the handler's \<open>try\<close> block. Only \<open>PyMongoError\<close> is caught.\<close>

definition timeseries_try ::
  "string \<Rightarrow> int \<Rightarrow> int \<Rightarrow> string option \<Rightarrow> store \<Rightarrow> int \<Rightarrow> outcome"
where
  "timeseries_try sensor hours limit location st now =
     (case st of
        Unconfigured \<Rightarrow> (Unhandled ValueError, [GetCollection])
      | Unavailable e \<Rightarrow>
          (case since_of now hours of
             None \<Rightarrow> (Unhandled OverflowError, [GetCollection])
           | Some since \<Rightarrow> (Response 500 (ErrorBody e), [GetCollection, Find]))
      | Collection docs \<Rightarrow>
          (case since_of now hours of
             None \<Rightarrow> (Unhandled OverflowError, [GetCollection])
           | Some since \<Rightarrow>
               (if \<not> bson_int_ok limit then (Unhandled OverflowError, [GetCollection, Find])
                else
                  (let docs' = find_sorted_limited (build_query sensor since location) limit docs;
                       docs_sorted = py_sorted r_timestamp docs'
                   in (Response 200 (Series docs_sorted), [GetCollection, Find])))))"

text \<open>\<open>request.args\<close> is a map from parameter names to strings.\<close>

definition api_timeseries :: "(string \<rightharpoonup> string) \<Rightarrow> store \<Rightarrow> int \<Rightarrow> outcome" where
  "api_timeseries args st now =
     (let sensor = args ''sensor''
      in if \<not> truthy sensor then
           (Response 400 (ErrorBody ''Missing required parameter: sensor''), [])
         else
           (case int_arg (args ''hours'') 24 of
              None \<Rightarrow> (Unhandled ValueError, [])
            | Some hours \<Rightarrow>
                (case int_arg (args ''limit'') 1000 of
                   None \<Rightarrow> (Unhandled ValueError, [])
                 | Some limit \<Rightarrow>
                     timeseries_try (the sensor) hours limit (args ''location'') st now)))"

section \<open>Properties of the store pipelines\<close>

text \<open>\<open>$group\<close> lists every key of its input once, and the accumulator of a key is
  started by the first document of the key and updated by the later ones, in order.\<close>

lemma keys_upsert:
  "map fst (upsert k v f gs) =
     (if k \<in> fst ` set gs then map fst gs else map fst gs @ [k])"
proof (induction gs)
  case Nil
  show ?case by simp
next
  case (Cons g gs)
  obtain k' a where g: "g = (k', a)" by (cases g)
  show ?case
  proof (cases "k' = k")
    case True
    then show ?thesis by (simp add: g)
  next
    case False
    then show ?thesis using Cons.IH by (simp add: g)
  qed
qed

lemma map_of_upsert:
  "map_of (upsert k v f gs) k' =
     (if k' = k then Some (case map_of gs k of None \<Rightarrow> v | Some a \<Rightarrow> f a)
      else map_of gs k')"
  by (induction gs) auto

lemma distinct_keys_upsert:
  "distinct (map fst gs) \<Longrightarrow> distinct (map fst (upsert k v f gs))"
  by (simp add: keys_upsert)

lemma distinct_keys_group_into:
  "distinct (map fst gs) \<Longrightarrow> distinct (map fst (group_into key init step gs ds))"
  by (induction ds arbitrary: gs) (simp_all add: distinct_keys_upsert)

lemma keys_group_into:
  "fst ` set (group_into key init step gs ds) = fst ` set gs \<union> key ` set ds"
proof (induction ds arbitrary: gs)
  case Nil
  show ?case by simp
next
  case (Cons d ds)
  have "fst ` set (upsert (key d) (init d) (step d) gs) = insert (key d) (fst ` set gs)"
    using keys_upsert[of "key d" "init d" "step d" gs]
    by (metis (no_types, lifting) Un_insert_right append_Nil2 insert_absorb list.set_map
        list.simps(15) set_append)
  then show ?case
    by (simp add: Cons.IH)
qed

lemma map_of_group_into:
  "map_of (group_into key init step gs ds) k =
     (case map_of gs k of
        Some a \<Rightarrow> Some (fold step (filter (\<lambda>d. key d = k) ds) a)
      | None \<Rightarrow>
          (case filter (\<lambda>d. key d = k) ds of
             [] \<Rightarrow> None
           | d0 # rest \<Rightarrow> Some (fold step rest (init d0))))"
proof (induction ds arbitrary: gs)
  case Nil
  show ?case by (simp split: option.split)
next
  case (Cons d ds)
  show ?case
    by (simp add: Cons.IH map_of_upsert split: option.split list.split)
qed

lemma mongo_group_distinct: "distinct (map fst (mongo_group key init step docs))"
  by (simp add: mongo_group_def distinct_keys_group_into)

lemma mongo_group_keys: "fst ` set (mongo_group key init step docs) = key ` set docs"
  by (simp add: mongo_group_def keys_group_into)

lemma mongo_group_entry:
  "(k, a) \<in> set (mongo_group key init step docs) \<longleftrightarrow>
     (\<exists>d0 rest. filter (\<lambda>d. key d = k) docs = d0 # rest \<and> a = fold step rest (init d0))"
proof -
  have "(k, a) \<in> set (mongo_group key init step docs) \<longleftrightarrow>
          map_of (mongo_group key init step docs) k = Some a"
    using mongo_group_distinct[of key init step docs] by simp
  also have "\<dots> \<longleftrightarrow>
      (\<exists>d0 rest. filter (\<lambda>d. key d = k) docs = d0 # rest \<and> a = fold step rest (init d0))"
    by (auto simp: mongo_group_def map_of_group_into split: list.split)
  finally show ?thesis .
qed

section \<open>Properties of the dimension lister\<close>

lemma truthy_iff: "truthy x \<longleftrightarrow> (\<exists>s. x = Some s \<and> s \<noteq> [])"
  by (cases x) auto

lemma set_truthy_values:
  "set (map the (filter truthy xs)) = {l. l \<noteq> [] \<and> Some l \<in> set xs}"
  by (force simp: truthy_iff image_iff)

lemma distinct_truthy_values:
  "distinct xs \<Longrightarrow> distinct (map the (filter truthy xs))"
  by (rule distinct_map[THEN iffD2]) (auto simp: inj_on_def truthy_iff)

text \<open>
  C8. On every store, \<open>api_sensors\<close> answers 200 with two lists. The first holds
  exactly the sensor values of the store, the second exactly the location values that
  are present and not the empty string; each list is in ascending order and has no
  value twice. On the empty store both lists are empty.
\<close>

theorem api_sensors_dimensions:
  "(\<exists>ss ls tr.
     api_sensors (Collection docs) = (Response 200 (Dimensions ss ls), tr)
     \<and> set ss = d_sensor ` set docs \<and> sorted ss \<and> distinct ss
     \<and> set ls = {l. l \<noteq> [] \<and> Some l \<in> d_location ` set docs} \<and> sorted ls \<and> distinct ls)
   \<and> fst (api_sensors (Collection [])) = Response 200 (Dimensions [] [])"
proof -
  define ss where "ss = py_sorted (\<lambda>s. s) (distinct_values d_sensor docs)"
  define ls where
    "ls = py_sorted (\<lambda>s. s) (map the (filter truthy (distinct_values d_location docs)))"
  have run: "api_sensors (Collection docs) =
      (Response 200 (Dimensions ss ls), [GetCollection, Distinct ''sensor'', Distinct ''location''])"
    by (simp add: api_sensors_def ss_def ls_def)
  have s1: "set ss = d_sensor ` set docs"
    by (simp add: ss_def py_sorted_def distinct_values_def)
  have s2: "sorted ss"
    using sorted_sort_key[of "\<lambda>s::string. s"] by (simp add: ss_def py_sorted_def)
  have s3: "distinct ss"
    by (simp add: ss_def py_sorted_def distinct_values_def)
  have "set ls = set (map the (filter truthy (distinct_values d_location docs)))"
    by (simp add: ls_def py_sorted_def)
  also have "\<dots> = {l. l \<noteq> [] \<and> Some l \<in> set (distinct_values d_location docs)}"
    by (rule set_truthy_values)
  finally have l1: "set ls = {l. l \<noteq> [] \<and> Some l \<in> d_location ` set docs}"
    by (simp add: distinct_values_def)
  have l2: "sorted ls"
    using sorted_sort_key[of "\<lambda>s::string. s"] by (simp add: ls_def py_sorted_def)
  have "distinct (map the (filter truthy (distinct_values d_location docs)))"
    by (rule distinct_truthy_values) (simp add: distinct_values_def)
  then have l3: "distinct ls"
    by (simp add: ls_def py_sorted_def)
  from run s1 s2 s3 l1 l2 l3
  have general: "\<exists>ss ls tr.
     api_sensors (Collection docs) = (Response 200 (Dimensions ss ls), tr)
     \<and> set ss = d_sensor ` set docs \<and> sorted ss \<and> distinct ss
     \<and> set ls = {l. l \<noteq> [] \<and> Some l \<in> d_location ` set docs} \<and> sorted ls \<and> distinct ls"
    by blast
  have empty: "fst (api_sensors (Collection [])) = Response 200 (Dimensions [] [])"
    by (simp add: api_sensors_def py_sorted_def distinct_values_def)
  from general empty show ?thesis by (rule conjI)
qed

section \<open>Properties of the request handling of \<open>api_timeseries\<close>\<close>

text \<open>
  C4. A request to \<open>api_timeseries\<close> without the \<open>sensor\<close> parameter is answered with
  status 400 and the message of the handler, whatever the other parameters, the store
  and the clock are, and the handler has performed no operation on the store.
\<close>

theorem api_timeseries_missing_sensor:
  "args ''sensor'' = None \<Longrightarrow>
     api_timeseries args st now =
       (Response 400 (ErrorBody ''Missing required parameter: sensor''), [])"
  by (simp add: api_timeseries_def)

text \<open>The hypothesis of C4 at a request with two other parameters, on a store that is
  down: the answer is still the 400 of the validation.\<close>

theorem api_timeseries_missing_sensor_witness:
  "[''hours'' \<mapsto> ''6'', ''location'' \<mapsto> ''field-1''] ''sensor'' = None
   \<and> api_timeseries [''hours'' \<mapsto> ''6'', ''location'' \<mapsto> ''field-1'']
         (Unavailable ''connection refused'') 0 =
       (Response 400 (ErrorBody ''Missing required parameter: sensor''), [])"
proof -
  have h: "[''hours'' \<mapsto> ''6'', ''location'' \<mapsto> ''field-1''] ''sensor'' = None"
    by simp
  from h
    api_timeseries_missing_sensor
      [of "[''hours'' \<mapsto> ''6'', ''location'' \<mapsto> ''field-1'']"
          "Unavailable ''connection refused''" 0]
  show ?thesis by blast
qed

lemma int_arg_abc: "int_arg (Some ''abc'') 24 = None"
  by (simp add: int_arg_def py_int_def py_strip_def py_isspace_def py_nat_def digit_val_def)

lemma int_arg_examples:
  "int_arg (Some ''-5'') 24 = Some (- 5)" "int_arg (Some ''0'') 1000 = Some 0"
  "int_arg None 1000 = Some 1000"
  by (simp_all add: int_arg_def py_int_def py_strip_def py_isspace_def py_nat_def digit_val_def)

text \<open>
  C10, as amended. On a request with a non-empty \<open>sensor\<close>: when \<open>hours\<close> or \<open>limit\<close> is
  present and \<open>int\<close> rejects it, \<open>ValueError\<close> escapes the handler and no operation on
  the store has been performed. When both convert, to integers of any sign, the handler
  goes on to the query with these integers: on a store that answers, with \<open>since\<close> in
  the range of \<open>datetime\<close> and \<open>limit\<close> in the range of BSON, the answer is a 200.
\<close>

theorem api_timeseries_int_conversion:
  assumes "truthy (args ''sensor'')"
  shows "((int_arg (args ''hours'') 24 = None \<or> int_arg (args ''limit'') 1000 = None) \<longrightarrow>
            api_timeseries args st now = (Unhandled ValueError, []))
         \<and> (\<forall>h l s. int_arg (args ''hours'') 24 = Some h \<and> int_arg (args ''limit'') 1000 = Some l
               \<and> since_of now h = Some s \<and> bson_int_ok l \<longrightarrow>
               (\<exists>es. api_timeseries args (Collection docs) now =
                  (Response 200 (Series es), [GetCollection, Find])))"
  using assms
  by (auto simp: api_timeseries_def Let_def timeseries_try_def split: option.splits)

text \<open>C10 at two requests: \<open>hours=abc\<close>, and \<open>hours=-5\<close> with \<open>limit=0\<close>.\<close>

theorem api_timeseries_int_conversion_witness:
  "truthy ([''sensor'' \<mapsto> ''soil'', ''hours'' \<mapsto> ''abc''] ''sensor'')
   \<and> int_arg ([''sensor'' \<mapsto> ''soil'', ''hours'' \<mapsto> ''abc''] ''hours'') 24 = None
   \<and> api_timeseries [''sensor'' \<mapsto> ''soil'', ''hours'' \<mapsto> ''abc''] (Collection []) 0 =
       (Unhandled ValueError, [])
   \<and> truthy ([''sensor'' \<mapsto> ''soil'', ''hours'' \<mapsto> ''-5'', ''limit'' \<mapsto> ''0''] ''sensor'')
   \<and> int_arg ([''sensor'' \<mapsto> ''soil'', ''hours'' \<mapsto> ''-5'', ''limit'' \<mapsto> ''0''] ''hours'') 24
       = Some (- 5)
   \<and> int_arg ([''sensor'' \<mapsto> ''soil'', ''hours'' \<mapsto> ''-5'', ''limit'' \<mapsto> ''0''] ''limit'') 1000
       = Some 0
   \<and> since_of 0 (- 5) = Some 18000000
   \<and> bson_int_ok 0
   \<and> (\<exists>es. api_timeseries [''sensor'' \<mapsto> ''soil'', ''hours'' \<mapsto> ''-5'', ''limit'' \<mapsto> ''0'']
              (Collection []) 0 =
            (Response 200 (Series es), [GetCollection, Find]))"
proof -
  let ?a1 = "[''sensor'' \<mapsto> ''soil'', ''hours'' \<mapsto> ''abc'']"
  let ?a2 = "[''sensor'' \<mapsto> ''soil'', ''hours'' \<mapsto> ''-5'', ''limit'' \<mapsto> ''0'']"
  have s1: "truthy (?a1 ''sensor'')" by simp
  have h1: "int_arg (?a1 ''hours'') 24 = None" by (simp add: int_arg_abc)
  have s2: "truthy (?a2 ''sensor'')" by simp
  have h2: "int_arg (?a2 ''hours'') 24 = Some (- 5)" by (simp add: int_arg_examples)
  have l2: "int_arg (?a2 ''limit'') 1000 = Some 0" by (simp add: int_arg_examples)
  have t2: "since_of 0 (- 5) = Some 18000000"
    by (simp add: since_of_def dt_min_def dt_max_def)
  have b2: "bson_int_ok 0" by (simp add: bson_int_ok_def)
  from api_timeseries_int_conversion[of ?a1 "Collection []" 0 "[]", OF s1] h1
  have r1: "api_timeseries ?a1 (Collection []) 0 = (Unhandled ValueError, [])"
    by blast
  from api_timeseries_int_conversion[of ?a2 "Collection []" 0 "[]", OF s2] h2 l2 t2 b2
  have r2: "\<exists>es. api_timeseries ?a2 (Collection []) 0 =
            (Response 200 (Series es), [GetCollection, Find])"
    by blast
  from s1 h1 r1 s2 h2 l2 t2 b2 r2 show ?thesis by blast
qed

text \<open>
  C10 as stated fails where \<open>sensor\<close> is missing: \<open>hours=abc\<close> does not convert, but
  the handler has returned the 400 of the validation before it converts anything.
\<close>

theorem api_timeseries_bad_int_without_sensor:
  "int_arg ([''hours'' \<mapsto> ''abc''] ''hours'') 24 = None
   \<and> api_timeseries [''hours'' \<mapsto> ''abc''] (Collection []) 0 =
       (Response 400 (ErrorBody ''Missing required parameter: sensor''), [])"
  by (simp add: int_arg_abc api_timeseries_def)

section \<open>The answer to a store failure\<close>

text \<open>
  C5. When the store raises a \<open>PyMongoError\<close> \<open>e\<close>, the three handlers answer 500 with
  \<open>{"error": str(e)}\<close>: the body is the text of the exception itself, for every text.
  The claim asks for a generic message instead, as \<open>register\<close> and \<open>login\<close> return
  (\<open>'Database error occurred'\<close>).
\<close>

theorem store_failure_text_returned:
  "fst (api_sensors (Unavailable e)) = Response 500 (ErrorBody e)
   \<and> fst (api_summary (Unavailable e) now) = Response 500 (ErrorBody e)
   \<and> fst (api_timeseries [''sensor'' \<mapsto> ''soil_moisture''] (Unavailable e) 0) =
       Response 500 (ErrorBody e)"
  by (simp add: api_sensors_def api_summary_def api_timeseries_def timeseries_try_def
      int_arg_def since_of_def dt_min_def dt_max_def)

section \<open>Properties of the query of \<open>api_timeseries\<close>\<close>

text \<open>When the handler answers 200: the request has a sensor, \<open>hours\<close> and \<open>limit\<close>
  convert, \<open>since\<close> is a \<open>datetime\<close>, the limit fits BSON and the store answers; and
  the series is the sorted result of the query.\<close>

lemma api_timeseries_ok:
  assumes "args ''sensor'' = Some s" "s \<noteq> []"
    and "int_arg (args ''hours'') 24 = Some h"
    and "int_arg (args ''limit'') 1000 = Some l"
    and "since_of now h = Some since" "bson_int_ok l"
  shows "api_timeseries args (Collection docs) now =
           (Response 200
              (Series (py_sorted r_timestamp
                 (find_sorted_limited (build_query s since (args ''location'')) l docs))),
            [GetCollection, Find])"
  using assms by (simp add: api_timeseries_def timeseries_try_def)

lemma api_timeseries_ok_inv:
  assumes "api_timeseries args st now = (Response 200 (Series es), tr)"
  shows "\<exists>s h l since docs.
           st = Collection docs \<and> args ''sensor'' = Some s \<and> s \<noteq> []
           \<and> int_arg (args ''hours'') 24 = Some h
           \<and> int_arg (args ''limit'') 1000 = Some l
           \<and> since_of now h = Some since \<and> bson_int_ok l
           \<and> es = py_sorted r_timestamp
                  (find_sorted_limited (build_query s since (args ''location'')) l docs)"
proof -
  from assms have t: "truthy (args ''sensor'')"
    by (auto simp: api_timeseries_def Let_def split: if_splits)
  then obtain s where s: "args ''sensor'' = Some s" "s \<noteq> []"
    by (auto simp: truthy_iff)
  from assms t obtain h where h: "int_arg (args ''hours'') 24 = Some h"
    by (auto simp: api_timeseries_def Let_def split: option.splits)
  from assms t h obtain l where l: "int_arg (args ''limit'') 1000 = Some l"
    by (auto simp: api_timeseries_def Let_def split: option.splits)
  from assms t h l s
  have tt: "timeseries_try s h l (args ''location'') st now = (Response 200 (Series es), tr)"
    by (simp add: api_timeseries_def Let_def)
  then obtain docs where st: "st = Collection docs"
    by (cases st) (auto simp: timeseries_try_def split: option.splits)
  from tt st obtain since where since: "since_of now h = Some since"
    by (auto simp: timeseries_try_def split: option.splits)
  from tt st since have b: "bson_int_ok l"
    by (auto simp: timeseries_try_def split: if_splits)
  from tt st since b
  have "es = py_sorted r_timestamp
                  (find_sorted_limited (build_query s since (args ''location'')) l docs)"
    by (simp add: timeseries_try_def)
  with st s h l since b show ?thesis by blast
qed

lemma project_id_location [simp]: "r_location (project_id d) = d_location d"
  and project_id_timestamp [simp]: "r_timestamp (project_id d) = d_timestamp d"
  and project_id_sensor [simp]: "r_sensor (project_id d) = d_sensor d"
  and project_id_value [simp]: "r_value (project_id d) = d_value d"
  by (simp_all add: project_id_def)

lemma set_find_sorted_limited:
  "set (find_sorted_limited q l docs) \<subseteq> project_id ` {d \<in> set docs. matches q d}"
proof -
  have "set (mongo_limit l xs) \<subseteq> set xs" for xs :: "doc list"
    by (auto simp: mongo_limit_def dest: in_set_takeD)
  then have "set (mongo_limit l (mongo_sort (\<lambda>d. - d_timestamp d) (filter (matches q) docs)))
      \<subseteq> {d \<in> set docs. matches q d}"
    by (fastforce simp: mongo_sort_def)
  then show ?thesis
    unfolding find_sorted_limited_def by auto
qed

text \<open>
  C7, as amended. In a series that \<open>api_timeseries\<close> returns for a request with a
  non-empty \<open>location\<close>, every reading has exactly that location. For a request
  without \<open>location\<close>, the series is computed from all documents of the sensor with
  a timestamp from \<open>since\<close> on, whatever their location: the filter has no condition
  on it.
\<close>

theorem api_timeseries_location_filter:
  assumes "api_timeseries args st now = (Response 200 (Series es), tr)"
  shows "(\<forall>loc. args ''location'' = Some loc \<and> loc \<noteq> [] \<longrightarrow>
             (\<forall>e\<in>set es. r_location e = Some loc))
         \<and> (args ''location'' = None \<longrightarrow>
             (\<exists>s h l since docs.
                st = Collection docs \<and> args ''sensor'' = Some s
                \<and> int_arg (args ''hours'') 24 = Some h
                \<and> int_arg (args ''limit'') 1000 = Some l
                \<and> since_of now h = Some since
                \<and> es = py_sorted r_timestamp
                    (map project_id
                      (mongo_limit l
                        (mongo_sort (\<lambda>d. - d_timestamp d)
                          (filter (\<lambda>d. d_sensor d = s \<and> since \<le> d_timestamp d) docs))))))"
proof -
  from api_timeseries_ok_inv[OF assms] obtain s h l since docs where
    st: "st = Collection docs" and s: "args ''sensor'' = Some s"
    and h: "int_arg (args ''hours'') 24 = Some h"
    and l: "int_arg (args ''limit'') 1000 = Some l"
    and since: "since_of now h = Some since"
    and es: "es = py_sorted r_timestamp
               (find_sorted_limited (build_query s since (args ''location'')) l docs)"
    by blast
  have only: "\<forall>e\<in>set es. r_location e = Some loc"
    if loc: "args ''location'' = Some loc" "loc \<noteq> []" for loc
  proof
    fix e assume "e \<in> set es"
    then have "e \<in> set (find_sorted_limited (build_query s since (Some loc)) l docs)"
      by (simp add: es loc py_sorted_def)
    with set_find_sorted_limited obtain d where
      "e = project_id d" "matches (build_query s since (Some loc)) d"
      by blast
    with loc show "r_location e = Some loc"
      by (simp add: matches_def build_query_def)
  qed
  have all: "es = py_sorted r_timestamp
                    (map project_id
                      (mongo_limit l
                        (mongo_sort (\<lambda>d. - d_timestamp d)
                          (filter (\<lambda>d. d_sensor d = s \<and> since \<le> d_timestamp d) docs))))"
    if "args ''location'' = None"
  proof -
    have "matches (build_query s since None) = (\<lambda>d. d_sensor d = s \<and> since \<le> d_timestamp d)"
      by (simp add: matches_def build_query_def fun_eq_iff)
    with es that show ?thesis
      by (simp add: find_sorted_limited_def)
  qed
  from only all st s h l since show ?thesis by blast
qed

text \<open>C7 on a store with one reading in \<open>field-1\<close>, one in \<open>field-2\<close> and one without
  location: the request for \<open>field-1\<close> returns the first only, the request without
  \<open>location\<close> all three.\<close>

theorem api_timeseries_location_filter_witness:
  "api_timeseries [''sensor'' \<mapsto> ''soil'', ''location'' \<mapsto> ''field-1'']
        (Collection
          [\<lparr>d_id = 1, d_sensor = ''soil'', d_value = 31, d_unit = Some ''%'', d_timestamp = 1000, d_location = Some ''field-1''\<rparr>,
           \<lparr>d_id = 2, d_sensor = ''soil'', d_value = 35, d_unit = Some ''%'', d_timestamp = 2000, d_location = Some ''field-2''\<rparr>,
           \<lparr>d_id = 3, d_sensor = ''soil'', d_value = 33, d_unit = None, d_timestamp = 3000, d_location = None\<rparr>]) 5000 =
      (Response 200 (Series
          [\<lparr>r_sensor = ''soil'', r_value = 31, r_unit = Some ''%'', r_timestamp = 1000, r_location = Some ''field-1''\<rparr>]),
       [GetCollection, Find])
   \<and> r_location \<lparr>r_sensor = ''soil'', r_value = 31, r_unit = Some ''%'', r_timestamp = 1000, r_location = Some ''field-1''\<rparr> = Some ''field-1''
   \<and> api_timeseries [''sensor'' \<mapsto> ''soil'']
        (Collection
          [\<lparr>d_id = 1, d_sensor = ''soil'', d_value = 31, d_unit = Some ''%'', d_timestamp = 1000, d_location = Some ''field-1''\<rparr>,
           \<lparr>d_id = 2, d_sensor = ''soil'', d_value = 35, d_unit = Some ''%'', d_timestamp = 2000, d_location = Some ''field-2''\<rparr>,
           \<lparr>d_id = 3, d_sensor = ''soil'', d_value = 33, d_unit = None, d_timestamp = 3000, d_location = None\<rparr>]) 5000 =
      (Response 200 (Series
          [\<lparr>r_sensor = ''soil'', r_value = 31, r_unit = Some ''%'', r_timestamp = 1000, r_location = Some ''field-1''\<rparr>,
           \<lparr>r_sensor = ''soil'', r_value = 35, r_unit = Some ''%'', r_timestamp = 2000, r_location = Some ''field-2''\<rparr>,
           \<lparr>r_sensor = ''soil'', r_value = 33, r_unit = None, r_timestamp = 3000, r_location = None\<rparr>]),
       [GetCollection, Find])
   \<and> [''sensor'' \<mapsto> ''soil''] ''location'' = None"
proof -
  let ?docs =
    "[\<lparr>d_id = 1, d_sensor = ''soil'', d_value = 31, d_unit = Some ''%'', d_timestamp = 1000, d_location = Some ''field-1''\<rparr>,
      \<lparr>d_id = 2, d_sensor = ''soil'', d_value = 35, d_unit = Some ''%'', d_timestamp = 2000, d_location = Some ''field-2''\<rparr>,
      \<lparr>d_id = 3, d_sensor = ''soil'', d_value = 33, d_unit = None, d_timestamp = 3000, d_location = None\<rparr>]"
  let ?a = "[''sensor'' \<mapsto> ''soil'', ''location'' \<mapsto> ''field-1'']"
  let ?b = "[''sensor'' \<mapsto> ''soil'']"
  let ?r1 = "\<lparr>r_sensor = ''soil'', r_value = 31, r_unit = Some ''%'', r_timestamp = 1000, r_location = Some ''field-1''\<rparr>"
  let ?r2 = "\<lparr>r_sensor = ''soil'', r_value = 35, r_unit = Some ''%'', r_timestamp = 2000, r_location = Some ''field-2''\<rparr>"
  let ?r3 = "\<lparr>r_sensor = ''soil'', r_value = 33, r_unit = None, r_timestamp = 3000, r_location = None\<rparr>"
  have a: "api_timeseries ?a (Collection ?docs) 5000 =
      (Response 200 (Series [?r1]), [GetCollection, Find])"
    by code_simp
  have b: "api_timeseries ?b (Collection ?docs) 5000 =
      (Response 200 (Series [?r1, ?r2, ?r3]), [GetCollection, Find])"
    by code_simp
  have la: "?a ''location'' = Some ''field-1''" and lb: "?b ''location'' = None"
    by simp_all
  from api_timeseries_location_filter[OF a] la
  have "\<forall>e\<in>set [?r1]. r_location e = Some ''field-1''"
    by blast
  then have ra: "r_location ?r1 = Some ''field-1''"
    by simp
  from a ra b lb show ?thesis by blast
qed

text \<open>
  C7 as stated fails for the request that supplies the empty string as \<open>location\<close>:
  the series holds the reading of \<open>field-2\<close>, whose location is not the value supplied.
\<close>

theorem api_timeseries_empty_location_not_filtered:
  "[''sensor'' \<mapsto> ''soil'', ''location'' \<mapsto> ''''] ''location'' = Some ''''
   \<and> fst (api_timeseries [''sensor'' \<mapsto> ''soil'', ''location'' \<mapsto> '''']
        (Collection
          [\<lparr>d_id = 2, d_sensor = ''soil'', d_value = 35, d_unit = Some ''%'', d_timestamp = 2000, d_location = Some ''field-2''\<rparr>]) 5000) =
      Response 200 (Series
          [\<lparr>r_sensor = ''soil'', r_value = 35, r_unit = Some ''%'', r_timestamp = 2000, r_location = Some ''field-2''\<rparr>])
   \<and> r_location \<lparr>r_sensor = ''soil'', r_value = 35, r_unit = Some ''%'', r_timestamp = 2000, r_location = Some ''field-2''\<rparr> \<noteq> Some ''''"
  by (simp add: api_timeseries_def timeseries_try_def int_arg_def since_of_def dt_min_def
      dt_max_def bson_int_ok_def find_sorted_limited_def build_query_def matches_def
      mongo_sort_def mongo_limit_def py_sorted_def project_id_def)

text \<open>
  C9. A request whose \<open>location\<close> parameter is the empty string gets the outcome of the
  same request without \<open>location\<close>. The query built from an empty \<open>location\<close> has no
  location filter: it matches a document on its sensor and its timestamp alone. When
  the request passes the validation and the store answers, the handler returns the
  series computed from all documents of the sensor with a timestamp from \<open>since\<close> on,
  those of every location and those without one; and a series it returns is always
  that one.
\<close>

theorem api_timeseries_empty_location:
  "api_timeseries (args(''location'' \<mapsto> [])) st now =
     api_timeseries (args(''location'' := None)) st now
   \<and> q_location (build_query sensor since (Some [])) = None
   \<and> matches (build_query sensor since (Some [])) d =
       (d_sensor d = sensor \<and> since \<le> d_timestamp d)
   \<and> (\<forall>s h l t docs.
         args ''sensor'' = Some s \<and> s \<noteq> []
         \<and> int_arg (args ''hours'') 24 = Some h
         \<and> int_arg (args ''limit'') 1000 = Some l
         \<and> since_of now h = Some t \<and> bson_int_ok l \<longrightarrow>
         api_timeseries (args(''location'' \<mapsto> [])) (Collection docs) now =
           (Response 200
              (Series (py_sorted r_timestamp
                 (map project_id
                    (mongo_limit l
                       (mongo_sort (\<lambda>d. - d_timestamp d)
                          (filter (\<lambda>d. d_sensor d = s \<and> t \<le> d_timestamp d) docs)))))),
            [GetCollection, Find]))
   \<and> (\<forall>es tr.
         api_timeseries (args(''location'' \<mapsto> [])) st now = (Response 200 (Series es), tr) \<longrightarrow>
         (\<exists>s h l t docs.
            st = Collection docs \<and> args ''sensor'' = Some s
            \<and> int_arg (args ''hours'') 24 = Some h
            \<and> int_arg (args ''limit'') 1000 = Some l
            \<and> since_of now h = Some t
            \<and> es = py_sorted r_timestamp
                (map project_id
                   (mongo_limit l
                      (mongo_sort (\<lambda>d. - d_timestamp d)
                         (filter (\<lambda>d. d_sensor d = s \<and> t \<le> d_timestamp d) docs))))))"
proof -
  let ?a = "args(''location'' \<mapsto> [])"
  have bq: "build_query s t (Some []) = build_query s t None" for s t
    by (simp add: build_query_def)
  have tryeq: "timeseries_try s h l (Some []) st now = timeseries_try s h l None st now"
    for s h l
    unfolding timeseries_try_def bq by (rule refl)
  have same: "api_timeseries ?a st now = api_timeseries (args(''location'' := None)) st now"
    by (simp add: api_timeseries_def Let_def tryeq split: option.split)
  have nofilter: "q_location (build_query sensor since (Some [])) = None"
    by (simp add: build_query_def)
  have m: "matches (build_query s t (Some [])) = (\<lambda>d. d_sensor d = s \<and> t \<le> d_timestamp d)"
    for s t
    by (simp add: build_query_def matches_def fun_eq_iff)
  have found: "find_sorted_limited (build_query s t (Some [])) l docs =
      map project_id
        (mongo_limit l
           (mongo_sort (\<lambda>d. - d_timestamp d)
              (filter (\<lambda>d. d_sensor d = s \<and> t \<le> d_timestamp d) docs)))"
    for s t l docs
    by (simp add: find_sorted_limited_def m)
  have loc: "?a ''location'' = Some []"
    by simp
  have returns: "api_timeseries ?a (Collection docs) now =
           (Response 200
              (Series (py_sorted r_timestamp
                 (map project_id
                    (mongo_limit l
                       (mongo_sort (\<lambda>d. - d_timestamp d)
                          (filter (\<lambda>d. d_sensor d = s \<and> t \<le> d_timestamp d) docs)))))),
            [GetCollection, Find])"
    if "args ''sensor'' = Some s" "s \<noteq> []" "int_arg (args ''hours'') 24 = Some h"
      "int_arg (args ''limit'') 1000 = Some l" "since_of now h = Some t" "bson_int_ok l"
    for s h l t docs
  proof -
    from that have "?a ''sensor'' = Some s" "int_arg (?a ''hours'') 24 = Some h"
      "int_arg (?a ''limit'') 1000 = Some l"
      by simp_all
    from api_timeseries_ok[OF this(1) that(2) this(2,3) that(5,6), of docs]
    show ?thesis
      by (simp only: loc found)
  qed
  have only: "\<exists>s h l t docs.
            st = Collection docs \<and> args ''sensor'' = Some s
            \<and> int_arg (args ''hours'') 24 = Some h
            \<and> int_arg (args ''limit'') 1000 = Some l
            \<and> since_of now h = Some t
            \<and> es = py_sorted r_timestamp
                (map project_id
                   (mongo_limit l
                      (mongo_sort (\<lambda>d. - d_timestamp d)
                         (filter (\<lambda>d. d_sensor d = s \<and> t \<le> d_timestamp d) docs))))"
    if "api_timeseries ?a st now = (Response 200 (Series es), tr)" for es tr
  proof -
    from api_timeseries_ok_inv[OF that] obtain s h l t docs where
      "st = Collection docs" "?a ''sensor'' = Some s"
      "int_arg (?a ''hours'') 24 = Some h" "int_arg (?a ''limit'') 1000 = Some l"
      "since_of now h = Some t"
      "es = py_sorted r_timestamp
              (find_sorted_limited (build_query s t (?a ''location'')) l docs)"
      by blast
    then have "st = Collection docs \<and> args ''sensor'' = Some s
            \<and> int_arg (args ''hours'') 24 = Some h
            \<and> int_arg (args ''limit'') 1000 = Some l
            \<and> since_of now h = Some t
            \<and> es = py_sorted r_timestamp
                (map project_id
                   (mongo_limit l
                      (mongo_sort (\<lambda>d. - d_timestamp d)
                         (filter (\<lambda>d. d_sensor d = s \<and> t \<le> d_timestamp d) docs))))"
      by (simp only: loc found) simp
    then show ?thesis by blast
  qed
  from same nofilter m[of sensor since] returns only show ?thesis
    by (simp only: ) blast
qed

text \<open>C9 on a store with a reading in \<open>field-1\<close>, one in \<open>field-2\<close> and one without
  location: the request with \<open>location=\<close> returns the three.\<close>

theorem api_timeseries_empty_location_witness:
  "[''sensor'' \<mapsto> ''soil''] ''sensor'' = Some ''soil''
   \<and> int_arg ([''sensor'' \<mapsto> ''soil''] ''hours'') 24 = Some 24
   \<and> int_arg ([''sensor'' \<mapsto> ''soil''] ''limit'') 1000 = Some 1000
   \<and> since_of 5000 24 = Some (- 86395000)
   \<and> bson_int_ok 1000
   \<and> api_timeseries [''sensor'' \<mapsto> ''soil'', ''location'' \<mapsto> '''']
        (Collection
          [\<lparr>d_id = 1, d_sensor = ''soil'', d_value = 31, d_unit = Some ''%'', d_timestamp = 1000, d_location = Some ''field-1''\<rparr>,
           \<lparr>d_id = 2, d_sensor = ''soil'', d_value = 35, d_unit = Some ''%'', d_timestamp = 2000, d_location = Some ''field-2''\<rparr>,
           \<lparr>d_id = 3, d_sensor = ''soil'', d_value = 33, d_unit = None, d_timestamp = 3000, d_location = None\<rparr>]) 5000 =
      (Response 200 (Series
          [\<lparr>r_sensor = ''soil'', r_value = 31, r_unit = Some ''%'', r_timestamp = 1000, r_location = Some ''field-1''\<rparr>,
           \<lparr>r_sensor = ''soil'', r_value = 35, r_unit = Some ''%'', r_timestamp = 2000, r_location = Some ''field-2''\<rparr>,
           \<lparr>r_sensor = ''soil'', r_value = 33, r_unit = None, r_timestamp = 3000, r_location = None\<rparr>]),
       [GetCollection, Find])"
proof -
  let ?docs =
    "[\<lparr>d_id = 1, d_sensor = ''soil'', d_value = 31, d_unit = Some ''%'', d_timestamp = 1000, d_location = Some ''field-1''\<rparr>,
      \<lparr>d_id = 2, d_sensor = ''soil'', d_value = 35, d_unit = Some ''%'', d_timestamp = 2000, d_location = Some ''field-2''\<rparr>,
      \<lparr>d_id = 3, d_sensor = ''soil'', d_value = 33, d_unit = None, d_timestamp = 3000, d_location = None\<rparr>]"
  let ?a = "[''sensor'' \<mapsto> ''soil'']"
  have s: "?a ''sensor'' = Some ''soil''" and ne: "''soil'' \<noteq> []"
    by simp_all
  have h: "int_arg (?a ''hours'') 24 = Some 24" and l: "int_arg (?a ''limit'') 1000 = Some 1000"
    by (simp_all add: int_arg_def)
  have t: "since_of 5000 24 = Some (- 86395000)"
    by (simp add: since_of_def dt_min_def dt_max_def)
  have b: "bson_int_ok 1000"
    by (simp add: bson_int_ok_def)
  have series: "py_sorted r_timestamp
      (map project_id
         (mongo_limit 1000
            (mongo_sort (\<lambda>d. - d_timestamp d)
               (filter (\<lambda>d. d_sensor d = ''soil'' \<and> - 86395000 \<le> d_timestamp d) ?docs)))) =
      [\<lparr>r_sensor = ''soil'', r_value = 31, r_unit = Some ''%'', r_timestamp = 1000, r_location = Some ''field-1''\<rparr>,
       \<lparr>r_sensor = ''soil'', r_value = 35, r_unit = Some ''%'', r_timestamp = 2000, r_location = Some ''field-2''\<rparr>,
       \<lparr>r_sensor = ''soil'', r_value = 33, r_unit = None, r_timestamp = 3000, r_location = None\<rparr>]"
    by (simp add: py_sorted_def mongo_limit_def mongo_sort_def project_id_def)
  from api_timeseries_empty_location[of ?a "Collection ?docs" 5000] s ne h l t b
  have "api_timeseries (?a(''location'' \<mapsto> [])) (Collection ?docs) 5000 =
      (Response 200
         (Series (py_sorted r_timestamp
            (map project_id
               (mongo_limit 1000
                  (mongo_sort (\<lambda>d. - d_timestamp d)
                     (filter (\<lambda>d. d_sensor d = ''soil'' \<and> - 86395000 \<le> d_timestamp d)
                        ?docs)))))),
       [GetCollection, Find])"
    by blast
  then have run: "api_timeseries (?a(''location'' \<mapsto> [])) (Collection ?docs) 5000 =
      (Response 200 (Series
          [\<lparr>r_sensor = ''soil'', r_value = 31, r_unit = Some ''%'', r_timestamp = 1000, r_location = Some ''field-1''\<rparr>,
           \<lparr>r_sensor = ''soil'', r_value = 35, r_unit = Some ''%'', r_timestamp = 2000, r_location = Some ''field-2''\<rparr>,
           \<lparr>r_sensor = ''soil'', r_value = 33, r_unit = None, r_timestamp = 3000, r_location = None\<rparr>]),
       [GetCollection, Find])"
    by (simp only: series)
  from s h l t b run show ?thesis
    by blast
qed

text \<open>The descending sort puts three documents with increasing timestamps in the
  reverse order, and cuts every list into a newer and an older part.\<close>

lemma mongo_sort_desc_only:
  assumes "mset xs = {#d1, d2, d3#}"
    and "d_timestamp d1 < d_timestamp d2" "d_timestamp d2 < d_timestamp d3"
  shows "mongo_sort (\<lambda>d. - d_timestamp d) xs = [d3, d2, d1]"
  unfolding mongo_sort_def
proof (rule properties_for_sort_key)
  show "mset [d3, d2, d1] = mset xs"
    using assms(1) by (simp add: add_mset_commute)
  show "sorted (map (\<lambda>d. - d_timestamp d) [d3, d2, d1])"
    using assms(2,3) by simp
next
  fix k assume k: "k \<in> set [d3, d2, d1]"
  let ?P = "\<lambda>x. - d_timestamp k = - d_timestamp x"
  have "mset (filter ?P xs) = filter_mset ?P {#d1, d2, d3#}"
    using assms(1) by (metis mset_filter)
  also have "\<dots> = {#k#}"
    using k assms(2,3) by auto
  finally have "filter ?P xs = [k]"
    by (simp only: mset_single_iff)
  moreover have "filter ?P [d3, d2, d1] = [k]"
    using k assms(2,3) by auto
  ultimately show "filter ?P [d3, d2, d1] = filter ?P xs"
    by simp
qed

lemma mongo_sort_split:
  fixes f :: "'a \<Rightarrow> int"
  shows "mset xs = mset (take n (mongo_sort f xs)) + mset (drop n (mongo_sort f xs))
   \<and> (\<forall>k\<in>set (take n (mongo_sort f xs)). \<forall>d\<in>set (drop n (mongo_sort f xs)). f k \<le> f d)"
proof -
  let ?S = "mongo_sort f xs"
  have "mset xs = mset (take n ?S @ drop n ?S)"
    by (simp add: mongo_sort_def)
  then have m: "mset xs = mset (take n ?S) + mset (drop n ?S)"
    by (simp only: mset_append)
  have "sorted (map f (take n ?S @ drop n ?S))"
    by (simp add: mongo_sort_def)
  then have "\<forall>x\<in>set (map f (take n ?S)). \<forall>y\<in>set (map f (drop n ?S)). x \<le> y"
    by (simp only: map_append sorted_append) blast
  then have "\<forall>k\<in>set (take n ?S). \<forall>d\<in>set (drop n ?S). f k \<le> f d"
    by simp
  with m show ?thesis by blast
qed

text \<open>
  C2. Take a request that passes the validation with a positive \<open>limit\<close>, on a store
  where more than \<open>limit\<close> documents match the filter. The handler answers 200 with a
  series that holds \<open>limit\<close> of the matching documents (without \<open>_id\<close>), each at least
  as recent as every matching document left out, in ascending order of timestamp.
  With \<open>limit = 2\<close> and three matching documents at timestamps \<open>t1 < t2 < t3\<close>, the
  series is the documents at \<open>t2\<close> and \<open>t3\<close>, in this order.
\<close>

theorem api_timeseries_keeps_most_recent:
  assumes sensor: "args ''sensor'' = Some s" "s \<noteq> []"
    and hours: "int_arg (args ''hours'') 24 = Some h"
    and limit: "int_arg (args ''limit'') 1000 = Some l"
    and since: "since_of now h = Some since"
    and pos: "0 < l" and bson: "bson_int_ok l"
    and matching:
      "matching = filter (matches (build_query s since (args ''location''))) docs"
    and more: "nat l < length matching"
  shows "\<exists>es kept dropped.
           api_timeseries args (Collection docs) now =
             (Response 200 (Series es), [GetCollection, Find])
           \<and> mset matching = mset kept + mset dropped
           \<and> length kept = nat l
           \<and> (\<forall>k\<in>set kept. \<forall>d\<in>set dropped. d_timestamp d \<le> d_timestamp k)
           \<and> mset es = mset (map project_id kept)
           \<and> sorted (map r_timestamp es)
           \<and> (\<forall>d1 d2 d3.
                 l = 2 \<and> mset matching = {#d1, d2, d3#}
                 \<and> d_timestamp d1 < d_timestamp d2 \<and> d_timestamp d2 < d_timestamp d3 \<longrightarrow>
                 es = [project_id d2, project_id d3])"
proof -
  let ?S = "mongo_sort (\<lambda>d. - d_timestamp d) matching"
  let ?kept = "take (nat l) ?S"
  let ?dropped = "drop (nat l) ?S"
  let ?es = "py_sorted r_timestamp (map project_id ?kept)"
  have lim: "mongo_limit l ?S = ?kept"
    using pos by (simp add: mongo_limit_def)
  have run: "api_timeseries args (Collection docs) now =
      (Response 200 (Series ?es), [GetCollection, Find])"
    using api_timeseries_ok[OF sensor hours limit since bson, of docs]
    by (simp add: find_sorted_limited_def matching lim[unfolded matching])
  from mongo_sort_split[of matching "nat l" "\<lambda>d. - d_timestamp d"]
  have split: "mset matching = mset ?kept + mset ?dropped"
    and newer: "\<forall>k\<in>set ?kept. \<forall>d\<in>set ?dropped. d_timestamp d \<le> d_timestamp k"
    by simp_all
  have len: "length ?kept = nat l"
    using more by (simp add: mongo_sort_def)
  have ms: "mset ?es = mset (map project_id ?kept)"
    by (simp add: py_sorted_def)
  have sorted: "sorted (map r_timestamp ?es)"
    by (simp add: py_sorted_def)
  have three: "?es = [project_id d2, project_id d3]"
    if "l = 2" "mset matching = {#d1, d2, d3#}"
      "d_timestamp d1 < d_timestamp d2" "d_timestamp d2 < d_timestamp d3"
    for d1 d2 d3
  proof -
    have "?S = [d3, d2, d1]"
      using that(2-4) by (rule mongo_sort_desc_only)
    with that(1,4) show ?thesis
      by (simp add: py_sorted_def numeral_2_eq_2)
  qed
  from run split len newer ms sorted three show ?thesis
    by blast
qed

text \<open>C2 at \<open>limit=2\<close> on three readings stored in the order 1000, 3000, 2000.\<close>

theorem api_timeseries_keeps_most_recent_witness:
  "[''sensor'' \<mapsto> ''soil'', ''limit'' \<mapsto> ''2''] ''sensor'' = Some ''soil''
   \<and> int_arg ([''sensor'' \<mapsto> ''soil'', ''limit'' \<mapsto> ''2''] ''hours'') 24 = Some 24
   \<and> int_arg ([''sensor'' \<mapsto> ''soil'', ''limit'' \<mapsto> ''2''] ''limit'') 1000 = Some 2
   \<and> since_of 5000 24 = Some (- 86395000)
   \<and> bson_int_ok 2
   \<and> filter (matches (build_query ''soil'' (- 86395000)
          ([''sensor'' \<mapsto> ''soil'', ''limit'' \<mapsto> ''2''] ''location'')))
        [\<lparr>d_id = 1, d_sensor = ''soil'', d_value = 31, d_unit = Some ''%'', d_timestamp = 1000, d_location = Some ''field-1''\<rparr>,
         \<lparr>d_id = 3, d_sensor = ''soil'', d_value = 33, d_unit = None, d_timestamp = 3000, d_location = None\<rparr>,
         \<lparr>d_id = 2, d_sensor = ''soil'', d_value = 35, d_unit = Some ''%'', d_timestamp = 2000, d_location = Some ''field-2''\<rparr>] =
        [\<lparr>d_id = 1, d_sensor = ''soil'', d_value = 31, d_unit = Some ''%'', d_timestamp = 1000, d_location = Some ''field-1''\<rparr>,
         \<lparr>d_id = 3, d_sensor = ''soil'', d_value = 33, d_unit = None, d_timestamp = 3000, d_location = None\<rparr>,
         \<lparr>d_id = 2, d_sensor = ''soil'', d_value = 35, d_unit = Some ''%'', d_timestamp = 2000, d_location = Some ''field-2''\<rparr>]
   \<and> api_timeseries [''sensor'' \<mapsto> ''soil'', ''limit'' \<mapsto> ''2'']
        (Collection
          [\<lparr>d_id = 1, d_sensor = ''soil'', d_value = 31, d_unit = Some ''%'', d_timestamp = 1000, d_location = Some ''field-1''\<rparr>,
           \<lparr>d_id = 3, d_sensor = ''soil'', d_value = 33, d_unit = None, d_timestamp = 3000, d_location = None\<rparr>,
           \<lparr>d_id = 2, d_sensor = ''soil'', d_value = 35, d_unit = Some ''%'', d_timestamp = 2000, d_location = Some ''field-2''\<rparr>]) 5000 =
      (Response 200 (Series
          [\<lparr>r_sensor = ''soil'', r_value = 35, r_unit = Some ''%'', r_timestamp = 2000, r_location = Some ''field-2''\<rparr>,
           \<lparr>r_sensor = ''soil'', r_value = 33, r_unit = None, r_timestamp = 3000, r_location = None\<rparr>]),
       [GetCollection, Find])"
proof -
  let ?d1 = "\<lparr>d_id = 1, d_sensor = ''soil'', d_value = 31, d_unit = Some ''%'', d_timestamp = 1000, d_location = Some ''field-1''\<rparr>"
  let ?d2 = "\<lparr>d_id = 2, d_sensor = ''soil'', d_value = 35, d_unit = Some ''%'', d_timestamp = 2000, d_location = Some ''field-2''\<rparr>"
  let ?d3 = "\<lparr>d_id = 3, d_sensor = ''soil'', d_value = 33, d_unit = None, d_timestamp = 3000, d_location = None\<rparr>"
  let ?docs = "[?d1, ?d3, ?d2]"
  let ?a = "[''sensor'' \<mapsto> ''soil'', ''limit'' \<mapsto> ''2'']"
  have s: "?a ''sensor'' = Some ''soil''" "''soil'' \<noteq> []"
    by simp_all
  have h: "int_arg (?a ''hours'') 24 = Some 24"
    by (simp add: int_arg_def)
  have l: "int_arg (?a ''limit'') 1000 = Some 2"
    by (simp add: int_arg_def py_int_def py_strip_def py_isspace_def py_nat_def digit_val_def)
  have t: "since_of 5000 24 = Some (- 86395000)"
    by (simp add: since_of_def dt_min_def dt_max_def)
  have p: "(0::int) < 2" and b: "bson_int_ok 2"
    by (simp_all add: bson_int_ok_def)
  have m: "?docs = filter (matches (build_query ''soil'' (- 86395000) (?a ''location''))) ?docs"
    by (simp add: matches_def build_query_def)
  have n: "nat 2 < length ?docs"
    by simp
  from api_timeseries_keeps_most_recent[OF s h l t p b m n]
  obtain es where
    run: "api_timeseries ?a (Collection ?docs) 5000 =
            (Response 200 (Series es), [GetCollection, Find])"
    and three: "\<forall>d1 d2 d3.
        (2::int) = 2 \<and> mset ?docs = {#d1, d2, d3#}
        \<and> d_timestamp d1 < d_timestamp d2 \<and> d_timestamp d2 < d_timestamp d3 \<longrightarrow>
        es = [project_id d2, project_id d3]"
    by blast
  have "mset ?docs = {#?d1, ?d2, ?d3#}"
    by (simp add: add_mset_commute)
  moreover have "d_timestamp ?d1 < d_timestamp ?d2" "d_timestamp ?d2 < d_timestamp ?d3"
    by simp_all
  ultimately have "es = [project_id ?d2, project_id ?d3]"
    using three by blast
  then have es: "es =
      [\<lparr>r_sensor = ''soil'', r_value = 35, r_unit = Some ''%'', r_timestamp = 2000, r_location = Some ''field-2''\<rparr>,
       \<lparr>r_sensor = ''soil'', r_value = 33, r_unit = None, r_timestamp = 3000, r_location = None\<rparr>]"
    by (simp add: project_id_def)
  from s(1) h l t b m[symmetric] run[unfolded es] show ?thesis
    by blast
qed

section \<open>Properties of the 24-hour statistics\<close>

text \<open>The accumulators of a group hold the number of its documents, the least and
  the greatest of their values, and the sum of their values.\<close>

lemma fold_stat_step:
  "fold stat_step rest (stat_init d0) =
     \<lparr>a_count = length (d0 # rest),
      a_min = Min (d_value ` set (d0 # rest)),
      a_max = Max (d_value ` set (d0 # rest)),
      a_sum = sum_list (map d_value (d0 # rest))\<rparr>"
proof (induction rest rule: rev_induct)
  case Nil
  show ?case by (simp add: stat_init_def)
next
  case (snoc x rest)
  have fin: "finite (d_value ` set (d0 # rest))" and ne: "d_value ` set (d0 # rest) \<noteq> {}"
    by simp_all
  have "d_value ` set (d0 # rest @ [x]) = insert (d_value x) (d_value ` set (d0 # rest))"
    by auto
  then have mn: "Min (d_value ` set (d0 # rest @ [x])) =
        min (Min (d_value ` set (d0 # rest))) (d_value x)"
    and mx: "Max (d_value ` set (d0 # rest @ [x])) =
        max (Max (d_value ` set (d0 # rest))) (d_value x)"
    using Min_insert[OF fin ne, of "d_value x"] Max_insert[OF fin ne, of "d_value x"]
    by (simp_all only: min.commute max.commute)
  have "fold stat_step (rest @ [x]) (stat_init d0) =
          stat_step x (fold stat_step rest (stat_init d0))"
    by simp
  also have "\<dots> =
     \<lparr>a_count = length (d0 # rest @ [x]),
      a_min = min (Min (d_value ` set (d0 # rest))) (d_value x),
      a_max = max (Max (d_value ` set (d0 # rest))) (d_value x),
      a_sum = sum_list (map d_value (d0 # rest @ [x]))\<rparr>"
    by (simp add: snoc.IH stat_step_def)
  finally show ?case
    by (simp only: mn mx append_Cons)
qed

lemma stats_pipeline_sensors:
  "map s_sensor (stats_pipeline since docs) =
     map fst (mongo_group d_sensor stat_init stat_step
                (filter (\<lambda>d. since \<le> d_timestamp d) docs))"
  by (simp add: stats_pipeline_def stat_project_def split_def comp_def)

lemma stats_pipeline_entry:
  assumes "e \<in> set (stats_pipeline since docs)"
  defines "W \<equiv> filter (\<lambda>d. d_sensor d = s_sensor e \<and> since \<le> d_timestamp d) docs"
  shows "W \<noteq> [] \<and> s_count e = length W
         \<and> s_min e = Min (d_value ` set W) \<and> s_max e = Max (d_value ` set W)
         \<and> s_avg e = sum_list (map d_value W) / of_nat (length W)"
proof -
  let ?win = "filter (\<lambda>d. since \<le> d_timestamp d) docs"
  from assms(1) obtain k a where
    g: "(k, a) \<in> set (mongo_group d_sensor stat_init stat_step ?win)"
    and e: "e = stat_project (k, a)"
    by (auto simp: stats_pipeline_def)
  from g obtain d0 rest where
    f: "filter (\<lambda>d. d_sensor d = k) ?win = d0 # rest"
    and a: "a = fold stat_step rest (stat_init d0)"
    by (auto simp: mongo_group_entry)
  have k: "s_sensor e = k"
    by (simp add: e stat_project_def)
  have "W = filter (\<lambda>d. d_sensor d = k) ?win"
    by (simp add: W_def k conj_commute)
  then have W: "W = d0 # rest"
    by (simp only: f)
  show ?thesis
    unfolding W by (simp add: e a stat_project_def fold_stat_step)
qed

text \<open>
  C3. With the clock at \<open>now\<close> (a day or more after the first \<open>datetime\<close>),
  \<open>api_summary\<close> answers 200, and \<open>stats_24h\<close> has one entry for each sensor that has a
  document with a timestamp from \<open>now - 24h\<close> on, and no other entry. The entry of a
  sensor is computed from the documents of that sensor in the window, whatever their
  location: its count is their number, its minimum and maximum the least and the
  greatest of their values, its average the sum of the values divided by the count.
  When the documents of a sensor are two, at \<open>now - 1h\<close> and \<open>now - 25h\<close>, the count of
  its entry is 1.
\<close>

theorem api_summary_stats_24h:
  assumes "dt_min \<le> now - 86400000" "now - 86400000 \<le> dt_max"
  shows "\<exists>latest stats.
           api_summary (Collection docs) now =
             (Response 200 (Summary latest stats), [GetCollection, Aggregate, Aggregate])
           \<and> distinct (map s_sensor stats)
           \<and> s_sensor ` set stats =
               d_sensor ` {d \<in> set docs. now - 86400000 \<le> d_timestamp d}
           \<and> (\<forall>e\<in>set stats. \<exists>W.
                 W = filter (\<lambda>d. d_sensor d = s_sensor e \<and> now - 86400000 \<le> d_timestamp d)
                       docs
                 \<and> W \<noteq> [] \<and> s_count e = length W
                 \<and> s_min e = Min (d_value ` set W) \<and> s_max e = Max (d_value ` set W)
                 \<and> s_avg e = sum_list (map d_value W) / of_nat (length W))
           \<and> (\<forall>x a b.
                 mset (filter (\<lambda>d. d_sensor d = x) docs) = {#a, b#}
                 \<and> d_timestamp a = now - 3600000 \<and> d_timestamp b = now - 25 * 3600000 \<longrightarrow>
                 (\<exists>e\<in>set stats. s_sensor e = x \<and> s_count e = 1))"
proof -
  let ?since = "now - 86400000"
  let ?stats = "stats_pipeline ?since docs"
  have since: "since_of now 24 = Some ?since"
    using assms by (simp add: since_of_def)
  have run: "api_summary (Collection docs) now =
      (Response 200 (Summary (latest_pipeline docs) ?stats),
       [GetCollection, Aggregate, Aggregate])"
    by (simp add: api_summary_def since)
  have dist: "distinct (map s_sensor ?stats)"
    by (simp only: stats_pipeline_sensors mongo_group_distinct)
  have "set (map s_sensor ?stats) =
      fst ` set (mongo_group d_sensor stat_init stat_step
                   (filter (\<lambda>d. ?since \<le> d_timestamp d) docs))"
    by (simp only: stats_pipeline_sensors set_map)
  then have sens: "s_sensor ` set ?stats = d_sensor ` {d \<in> set docs. ?since \<le> d_timestamp d}"
    by (simp add: mongo_group_keys)
  have entry: "\<forall>e\<in>set ?stats. \<exists>W.
                 W = filter (\<lambda>d. d_sensor d = s_sensor e \<and> ?since \<le> d_timestamp d) docs
                 \<and> W \<noteq> [] \<and> s_count e = length W
                 \<and> s_min e = Min (d_value ` set W) \<and> s_max e = Max (d_value ` set W)
                 \<and> s_avg e = sum_list (map d_value W) / of_nat (length W)"
    using stats_pipeline_entry[of _ ?since docs] by blast
  have example: "\<exists>e\<in>set ?stats. s_sensor e = x \<and> s_count e = 1"
    if m: "mset (filter (\<lambda>d. d_sensor d = x) docs) = {#a, b#}"
      and ta: "d_timestamp a = now - 3600000" and tb: "d_timestamp b = now - 25 * 3600000"
    for x a b
  proof -
    let ?W = "filter (\<lambda>d. d_sensor d = x \<and> ?since \<le> d_timestamp d) docs"
    have "?W = filter (\<lambda>d. ?since \<le> d_timestamp d) (filter (\<lambda>d. d_sensor d = x) docs)"
      by simp
    then have "mset ?W = filter_mset (\<lambda>d. ?since \<le> d_timestamp d)
                      (mset (filter (\<lambda>d. d_sensor d = x) docs))"
      by (simp only: mset_filter)
    also have "\<dots> = filter_mset (\<lambda>d. ?since \<le> d_timestamp d) {#a, b#}"
      by (simp only: m)
    also have "\<dots> = {#a#}"
      by (simp add: ta tb)
    finally have W: "?W = [a]"
      by (simp only: mset_single_iff)
    then have "a \<in> set ?W"
      by simp
    then have "a \<in> set docs" "d_sensor a = x" "?since \<le> d_timestamp a"
      by simp_all
    then have "x \<in> d_sensor ` {d \<in> set docs. ?since \<le> d_timestamp d}"
      by blast
    then have "x \<in> s_sensor ` set ?stats"
      by (simp only: sens)
    then obtain e where e: "e \<in> set ?stats" "s_sensor e = x"
      by blast
    with stats_pipeline_entry[OF e(1)] W have "s_count e = 1"
      by simp
    with e show ?thesis by blast
  qed
  from run dist sens entry example show ?thesis
    by blast
qed

text \<open>C3 on a store with a sensor read one hour and 25 hours ago, and a second
  sensor read twice in the window at two locations.\<close>

theorem api_summary_stats_24h_witness:
  "dt_min \<le> 100000000 - 86400000 \<and> 100000000 - 86400000 \<le> dt_max
   \<and> mset (filter (\<lambda>d. d_sensor d = ''soil'')
        [\<lparr>d_id = 1, d_sensor = ''soil'', d_value = 30, d_unit = None, d_timestamp = 96400000, d_location = Some ''field-1''\<rparr>,
         \<lparr>d_id = 3, d_sensor = ''temp'', d_value = 20, d_unit = None, d_timestamp = 90000000, d_location = None\<rparr>,
         \<lparr>d_id = 2, d_sensor = ''soil'', d_value = 40, d_unit = None, d_timestamp = 10000000, d_location = Some ''field-1''\<rparr>,
         \<lparr>d_id = 4, d_sensor = ''temp'', d_value = 22, d_unit = None, d_timestamp = 95000000, d_location = Some ''field-2''\<rparr>]) =
       {#\<lparr>d_id = 1, d_sensor = ''soil'', d_value = 30, d_unit = None, d_timestamp = 96400000, d_location = Some ''field-1''\<rparr>,
         \<lparr>d_id = 2, d_sensor = ''soil'', d_value = 40, d_unit = None, d_timestamp = 10000000, d_location = Some ''field-1''\<rparr>#}
   \<and> d_timestamp \<lparr>d_id = 1, d_sensor = ''soil'', d_value = 30, d_unit = None, d_timestamp = 96400000, d_location = Some ''field-1''\<rparr> = 100000000 - 3600000
   \<and> d_timestamp \<lparr>d_id = 2, d_sensor = ''soil'', d_value = 40, d_unit = None, d_timestamp = 10000000, d_location = Some ''field-1''\<rparr> = 100000000 - 25 * 3600000
   \<and> (\<exists>latest stats.
         api_summary
           (Collection
             [\<lparr>d_id = 1, d_sensor = ''soil'', d_value = 30, d_unit = None, d_timestamp = 96400000, d_location = Some ''field-1''\<rparr>,
              \<lparr>d_id = 3, d_sensor = ''temp'', d_value = 20, d_unit = None, d_timestamp = 90000000, d_location = None\<rparr>,
              \<lparr>d_id = 2, d_sensor = ''soil'', d_value = 40, d_unit = None, d_timestamp = 10000000, d_location = Some ''field-1''\<rparr>,
              \<lparr>d_id = 4, d_sensor = ''temp'', d_value = 22, d_unit = None, d_timestamp = 95000000, d_location = Some ''field-2''\<rparr>]) 100000000 =
           (Response 200 (Summary latest stats), [GetCollection, Aggregate, Aggregate])
         \<and> stats =
             [\<lparr>s_sensor = ''soil'', s_count = 1, s_min = 30, s_max = 30, s_avg = 30\<rparr>,
              \<lparr>s_sensor = ''temp'', s_count = 2, s_min = 20, s_max = 22, s_avg = 21\<rparr>]
         \<and> (\<exists>e. e \<in> set stats \<and> s_sensor e = ''soil'' \<and> s_count e = 1))"
proof -
  let ?a = "\<lparr>d_id = 1, d_sensor = ''soil'', d_value = 30, d_unit = None, d_timestamp = 96400000, d_location = Some ''field-1''\<rparr>"
  let ?b = "\<lparr>d_id = 2, d_sensor = ''soil'', d_value = 40, d_unit = None, d_timestamp = 10000000, d_location = Some ''field-1''\<rparr>"
  let ?t1 = "\<lparr>d_id = 3, d_sensor = ''temp'', d_value = 20, d_unit = None, d_timestamp = 90000000, d_location = None\<rparr>"
  let ?t2 = "\<lparr>d_id = 4, d_sensor = ''temp'', d_value = 22, d_unit = None, d_timestamp = 95000000, d_location = Some ''field-2''\<rparr>"
  let ?docs = "[?a, ?t1, ?b, ?t2]"
  let ?stats =
    "[\<lparr>s_sensor = ''soil'', s_count = 1, s_min = 30, s_max = 30, s_avg = 30\<rparr>,
      \<lparr>s_sensor = ''temp'', s_count = 2, s_min = 20, s_max = 22, s_avg = 21\<rparr>]"
  have lo: "dt_min \<le> 100000000 - 86400000" and hi: "100000000 - 86400000 \<le> dt_max"
    by (simp_all add: dt_min_def dt_max_def)
  have m: "mset (filter (\<lambda>d. d_sensor d = ''soil'') ?docs) = {#?a, ?b#}"
    by simp
  have ta: "d_timestamp ?a = 100000000 - 3600000"
    and tb: "d_timestamp ?b = 100000000 - 25 * 3600000"
    by simp_all
  from api_summary_stats_24h[OF lo hi, of ?docs] obtain latest stats where
    run: "api_summary (Collection ?docs) 100000000 =
            (Response 200 (Summary latest stats), [GetCollection, Aggregate, Aggregate])"
    and ex: "\<forall>x a b.
        mset (filter (\<lambda>d. d_sensor d = x) ?docs) = {#a, b#}
        \<and> d_timestamp a = 100000000 - 3600000 \<and> d_timestamp b = 100000000 - 25 * 3600000 \<longrightarrow>
        (\<exists>e\<in>set stats. s_sensor e = x \<and> s_count e = 1)"
    by blast
  from ex m ta tb have one: "\<exists>e. e \<in> set stats \<and> s_sensor e = ''soil'' \<and> s_count e = 1"
    by blast
  have "snd (snd (case fst (api_summary (Collection ?docs) 100000000) of
                    Response n (Summary l s) \<Rightarrow> (n, l, s))) = ?stats"
    by code_simp
  with run have "stats = ?stats"
    by simp
  with lo hi m ta tb run one show ?thesis
    by blast
qed

section \<open>Properties of the latest-per-group view\<close>

text \<open>\<open>$first\<close> keeps the document that opens a group. After the sort, that document
  has the least sort key among the documents of its group key.\<close>

lemma fold_keep_first: "fold (\<lambda>d a. a) rest d0 = d0"
  by (induction rest) simp_all

lemma first_of_sorted_least:
  fixes f :: "'a \<Rightarrow> 'k::linorder"
  assumes "sorted (map f xs)" "filter P xs = d0 # rest" "d \<in> set xs" "P d"
  shows "f d0 \<le> f d"
proof -
  from assms(1) have "sorted (map f (filter P xs))"
    by (rule sorted_filter)
  then have "\<forall>y\<in>set rest. f d0 \<le> f y"
    by (simp add: assms(2))
  moreover from assms(3,4) have "d \<in> set (d0 # rest)"
    by (simp flip: assms(2))
  ultimately show ?thesis by auto
qed

lemma latest_group_first:
  assumes "(k, a) \<in> set (mongo_group latest_key (\<lambda>d. d) (\<lambda>d a. a) (mongo_sort latest_order docs))"
  shows "a \<in> set docs \<and> latest_key a = k
         \<and> (\<forall>d\<in>set docs. latest_key d = k \<longrightarrow> latest_order a \<le> latest_order d)"
proof -
  let ?S = "mongo_sort latest_order docs"
  from assms obtain d0 rest where
    f: "filter (\<lambda>d. latest_key d = k) ?S = d0 # rest" and a: "a = d0"
    by (auto simp: mongo_group_entry fold_keep_first)
  have "d0 \<in> set (filter (\<lambda>d. latest_key d = k) ?S)"
    by (simp add: f)
  then have in_docs: "a \<in> set docs" and key: "latest_key a = k"
    by (simp_all add: a mongo_sort_def)
  have sorted: "sorted (map latest_order ?S)"
    by (simp add: mongo_sort_def)
  have "latest_order a \<le> latest_order d" if "d \<in> set docs" "latest_key d = k" for d
  proof -
    from that(1) have "d \<in> set ?S" by (simp add: mongo_sort_def)
    from first_of_sorted_least[OF sorted f this that(2)] show ?thesis
      by (simp add: a)
  qed
  with in_docs key show ?thesis by blast
qed

text \<open>
  On a store where no document has the literal location \<open>__none__\<close>, two documents
  have the same group key exactly when they agree on sensor and location (absent
  locations agreeing with each other), and \<open>latest\<close> holds one document per group key
  of the store, a document of the store with the greatest timestamp among those of
  its sensor and location.
\<close>

lemma latest_pipeline_latest:
  assumes "\<forall>d\<in>set docs. d_location d \<noteq> Some ''__none__''"
  shows "\<exists>kept.
           latest_pipeline docs = map project_id kept
           \<and> distinct (map latest_key kept)
           \<and> latest_key ` set kept = latest_key ` set docs
           \<and> (\<forall>e\<in>set kept. e \<in> set docs
                 \<and> (\<forall>d\<in>set docs. d_sensor d = d_sensor e \<and> d_location d = d_location e \<longrightarrow>
                       d_timestamp d \<le> d_timestamp e))
           \<and> (\<forall>d\<in>set docs. \<forall>d'\<in>set docs.
                 latest_key d = latest_key d' \<longleftrightarrow>
                 d_sensor d = d_sensor d' \<and> d_location d = d_location d')"
proof -
  let ?G = "mongo_group latest_key (\<lambda>d. d) (\<lambda>d a. a) (mongo_sort latest_order docs)"
  let ?kept = "map snd ?G"
  have pip: "latest_pipeline docs = map project_id ?kept"
    by (simp add: latest_pipeline_def split_def comp_def)
  have keys: "map latest_key ?kept = map fst ?G"
    using latest_group_first[of _ _ docs] by (auto simp: comp_def)
  have dist: "distinct (map latest_key ?kept)"
    by (simp only: keys mongo_group_distinct)
  have "latest_key ` set ?kept = set (map latest_key ?kept)"
    by (simp only: set_map)
  also have "\<dots> = fst ` set ?G"
    by (simp only: keys set_map)
  also have "\<dots> = latest_key ` set docs"
    by (simp add: mongo_group_keys mongo_sort_def)
  finally have cover: "latest_key ` set ?kept = latest_key ` set docs" .
  have same: "latest_key d = latest_key d' \<longleftrightarrow>
                d_sensor d = d_sensor d' \<and> d_location d = d_location d'"
    if "d \<in> set docs" "d' \<in> set docs" for d d'
    using assms that by (auto simp: latest_key_def split: option.splits)
  have newest: "e \<in> set docs
       \<and> (\<forall>d\<in>set docs. d_sensor d = d_sensor e \<and> d_location d = d_location e \<longrightarrow>
             d_timestamp d \<le> d_timestamp e)"
    if "e \<in> set ?kept" for e
  proof -
    from that obtain k where "(k, e) \<in> set ?G"
      by auto
    from latest_group_first[OF this] have e: "e \<in> set docs" "latest_key e = k"
      and least: "\<forall>d\<in>set docs. latest_key d = k \<longrightarrow> latest_order e \<le> latest_order d"
      by simp_all
    have "d_timestamp d \<le> d_timestamp e"
      if d: "d \<in> set docs" "d_sensor d = d_sensor e" "d_location d = d_location e" for d
    proof -
      from d e same[of d e] have "latest_key d = k"
        by simp
      with least d(1) have "latest_order e \<le> latest_order d"
        by blast
      with d(2,3) show ?thesis
        by (simp add: latest_order_def)
    qed
    with e(1) show ?thesis by blast
  qed
  from pip dist cover newest same show ?thesis
    by blast
qed

text \<open>
  C1. The store below has two readings of \<open>soil\<close>: one at 2000 whose location is the
  string \<open>__none__\<close>, one at 1000 without location. \<open>$ifNull\<close> maps the absent location
  to the same string, so both readings get one group key; the sort puts the absent
  location first, and \<open>$first\<close> keeps the reading at 1000. \<open>latest\<close> has one entry for
  the two (sensor, location) pairs, and its timestamp is not the greatest of the
  group.
\<close>

theorem api_summary_sentinel_location:
  "api_summary
     (Collection
       [\<lparr>d_id = 1, d_sensor = ''soil'', d_value = 34, d_unit = None, d_timestamp = 2000,
           d_location = Some ''__none__''\<rparr>,
        \<lparr>d_id = 2, d_sensor = ''soil'', d_value = 30, d_unit = None, d_timestamp = 1000,
           d_location = None\<rparr>]) 5000 =
     (Response 200
        (Summary
           [\<lparr>r_sensor = ''soil'', r_value = 30, r_unit = None, r_timestamp = 1000,
               r_location = None\<rparr>]
           [\<lparr>s_sensor = ''soil'', s_count = 2, s_min = 30, s_max = 34, s_avg = 32\<rparr>]),
      [GetCollection, Aggregate, Aggregate])
   \<and> latest_key
        \<lparr>d_id = 1, d_sensor = ''soil'', d_value = 34, d_unit = None, d_timestamp = 2000,
           d_location = Some ''__none__''\<rparr> =
       latest_key
        \<lparr>d_id = 2, d_sensor = ''soil'', d_value = 30, d_unit = None, d_timestamp = 1000,
           d_location = None\<rparr>"
proof -
  have "api_summary
     (Collection
       [\<lparr>d_id = 1, d_sensor = ''soil'', d_value = 34, d_unit = None, d_timestamp = 2000,
           d_location = Some ''__none__''\<rparr>,
        \<lparr>d_id = 2, d_sensor = ''soil'', d_value = 30, d_unit = None, d_timestamp = 1000,
           d_location = None\<rparr>]) 5000 =
     (Response 200
        (Summary
           [\<lparr>r_sensor = ''soil'', r_value = 30, r_unit = None, r_timestamp = 1000,
               r_location = None\<rparr>]
           [\<lparr>s_sensor = ''soil'', s_count = 2, s_min = 30, s_max = 34, s_avg = 32\<rparr>]),
      [GetCollection, Aggregate, Aggregate])"
    by code_simp
  moreover have "latest_key
        \<lparr>d_id = 1, d_sensor = ''soil'', d_value = 34, d_unit = None, d_timestamp = 2000,
           d_location = Some ''__none__''\<rparr> =
       latest_key
        \<lparr>d_id = 2, d_sensor = ''soil'', d_value = 30, d_unit = None, d_timestamp = 1000,
           d_location = None\<rparr>"
    by (simp add: latest_key_def)
  ultimately show ?thesis by (rule conjI)
qed

end
